theory Spec2Isabelle
  imports Complex_Main
begin

section \<open>Data model of Monitoring.py\<close>

text \<open>
  The monitor of \<^verbatim>\<open>src/Monitoring.py\<close> (class \<^verbatim>\<open>AdvancedPatientMonitor\<close> and the
  alert check of \<^verbatim>\<open>MonitoringGUI\<close>) is embedded with explicit state passing. Python
  dictionaries with a fixed key set are records; Python numbers that come out of
  \<^verbatim>\<open>random.randint\<close> are \<open>int\<close>; JSON numbers of the configuration and the
  temperature are \<open>real\<close> (Python compares an int with a float by value). A
  \<^verbatim>\<open>datetime\<close> is a count of microseconds.
\<close>

type_synonym datetime = int

record thresholds =
  spo2_low :: real
  heart_rate_high :: real
  respiratory_rate_high :: real
  temperature_high :: real

record email_config =
  enabled :: bool
  smtp_server :: string
  smtp_port :: int
  sender_email :: string
  sender_password :: string
  recipient_emails :: "string list"

record prediction_config =
  window_size :: int
  forecast_hours :: int

record config =
  alert_thresholds :: thresholds
  email_alerts :: email_config
  prediction_settings :: prediction_config

text \<open>The configuration \<^verbatim>\<open>load_config\<close> returns when the file is absent.\<close>

definition default_config :: config where
  "default_config =
     \<lparr>alert_thresholds =
        \<lparr>spo2_low = 92, heart_rate_high = 110, respiratory_rate_high = 25,
         temperature_high = 38\<rparr>,
      email_alerts =
        \<lparr>enabled = False, smtp_server = ''smtp.gmail.com'', smtp_port = 587,
         sender_email = [], sender_password = [], recipient_emails = []\<rparr>,
      prediction_settings = \<lparr>window_size = 10, forecast_hours = 6\<rparr>\<rparr>"

datatype activity = Repos | Leger | Modere | Eleve

text \<open>
  The dictionary \<^verbatim>\<open>read_sensor_data\<close> returns, and the same dictionary once
  \<^verbatim>\<open>simulate_measurement\<close> has stored \<^verbatim>\<open>measurement['time']\<close> in it.
\<close>

record reading =
  spo2 :: int
  heart_rate :: int
  respiratory_rate :: int
  temperature :: real
  systolic_bp :: int
  diastolic_bp :: int
  activity_level :: activity

record measurement = reading +
  time :: datetime

text \<open>
  \<^verbatim>\<open>self.data\<close>: one list per channel. \<^verbatim>\<open>data['symptoms']\<close> holds the strings
  \<^verbatim>\<open>f"{symptom} (severity: {severity})"\<close>, kept here as the two interpolated values.
\<close>

record data =
  data_timestamp :: "datetime list"
  data_spo2 :: "int list"
  data_heart_rate :: "int list"
  data_respiratory_rate :: "int list"
  data_temperature :: "real list"
  data_systolic_bp :: "int list"
  data_diastolic_bp :: "int list"
  data_symptoms :: "(string \<times> int) list"
  data_activity_level :: "activity list"

record symptom_entry =
  se_timestamp :: datetime
  symptom :: string
  severity :: int
  se_notes :: string

text \<open>
  The alert messages are f-strings over one measured value; the datatype keeps the
  format and the interpolated value:
  \<^verbatim>\<open>"SpO2 basse: {spo2}%"\<close>, \<^verbatim>\<open>"Tachycardie: {heart_rate} bpm"\<close>,
  \<^verbatim>\<open>"Tachypnee: {respiratory_rate} rpm"\<close>, \<^verbatim>\<open>"Fievre: {temperature} C"\<close> and
  \<^verbatim>\<open>"Signes d'exacerbation possible"\<close>.
\<close>

datatype message =
  SpO2_basse int
| Tachycardie int
| Tachypnee int
| Fievre real
| Signes_d_exacerbation_possible

record alert =
  alert_timestamp :: datetime
  alert_type :: string
  alert_message :: message
  alert_severity :: string

text \<open>
  The outcome of one SMTP conversation (\<^verbatim>\<open>smtplib.SMTP\<close>, \<^verbatim>\<open>starttls\<close>,
  \<^verbatim>\<open>login\<close>, \<^verbatim>\<open>sendmail\<close>): it succeeds, or one of the calls raises an exception
  whose text is \<^verbatim>\<open>str(e)\<close>.
\<close>

datatype smtp_outcome = Delivered | Raised string

text \<open>What \<^verbatim>\<open>print\<close> writes to the console.\<close>

datatype console_line =
  Alerte message datetime
| Email_envoye
| Erreur_email string

text \<open>
  The state of a monitor: the fields of the object, the three tables of its SQLite
  database (rows in insertion order), the console, and the environment the methods
  read: \<open>clock\<close> gives the value of the n-th call of \<^verbatim>\<open>datetime.now()\<close> and
  \<open>smtp\<close> the outcome of the n-th delivery attempt; \<open>clock_reads\<close> and
  \<open>smtp_attempts\<close> count the calls made so far.
\<close>

record monitor =
  config :: config
  data :: data
  symptom_log :: "symptom_entry list"
  alerts :: "alert list"
  db_measurements :: "measurement list"
  db_symptoms :: "symptom_entry list"
  db_alerts :: "alert list"
  console :: "console_line list"
  clock :: "nat \<Rightarrow> datetime"
  clock_reads :: nat
  smtp :: "nat \<Rightarrow> smtp_outcome"
  smtp_attempts :: nat

definition empty_data :: data where
  "empty_data =
     \<lparr>data_timestamp = [], data_spo2 = [], data_heart_rate = [],
      data_respiratory_rate = [], data_temperature = [], data_systolic_bp = [],
      data_diastolic_bp = [], data_symptoms = [], data_activity_level = []\<rparr>"

text \<open>\<^verbatim>\<open>__init__\<close> with a configuration, on a fresh database.\<close>

definition init_monitor :: "config \<Rightarrow> (nat \<Rightarrow> datetime) \<Rightarrow> (nat \<Rightarrow> smtp_outcome) \<Rightarrow> monitor" where
  "init_monitor cfg clk out =
     \<lparr>config = cfg, data = empty_data, symptom_log = [], alerts = [],
      db_measurements = [], db_symptoms = [], db_alerts = [], console = [],
      clock = clk, clock_reads = 0, smtp = out, smtp_attempts = 0\<rparr>"

section \<open>Environment calls\<close>

definition datetime_now :: "monitor \<Rightarrow> datetime \<times> monitor" where
  "datetime_now st = (clock st (clock_reads st), st\<lparr>clock_reads := Suc (clock_reads st)\<rparr>)"

definition console_print :: "console_line \<Rightarrow> monitor \<Rightarrow> monitor" where
  "console_print l st = st\<lparr>console := console st @ [l]\<rparr>"

definition smtp_deliver :: "monitor \<Rightarrow> smtp_outcome \<times> monitor" where
  "smtp_deliver st = (smtp st (smtp_attempts st), st\<lparr>smtp_attempts := Suc (smtp_attempts st)\<rparr>)"

section \<open>Persistence and the alert path\<close>

definition save_measurement :: "measurement \<Rightarrow> monitor \<Rightarrow> monitor" where
  "save_measurement m st = st\<lparr>db_measurements := db_measurements st @ [m]\<rparr>"

definition save_symptom :: "symptom_entry \<Rightarrow> monitor \<Rightarrow> monitor" where
  "save_symptom e st = st\<lparr>db_symptoms := db_symptoms st @ [e]\<rparr>"

definition save_alert :: "string \<Rightarrow> message \<Rightarrow> string \<Rightarrow> monitor \<Rightarrow> monitor" where
  "save_alert ty msg sev st =
     (let (ts, st1) = datetime_now st;
          a = \<lparr>alert_timestamp = ts, alert_type = ty, alert_message = msg,
               alert_severity = sev\<rparr>;
          st2 = st1\<lparr>db_alerts := db_alerts st1 @ [a]\<rparr>
      in st2\<lparr>alerts := alerts st2 @ [a]\<rparr>)"

text \<open>
  The body of the \<^verbatim>\<open>try\<close> of \<^verbatim>\<open>send_email_alert\<close>: \<open>Inr\<close> when it returns,
  \<open>Inl\<close> with the exception text and the state reached when it raises.
\<close>

definition send_email_body :: "message \<Rightarrow> string \<Rightarrow> monitor \<Rightarrow> (string \<times> monitor) + monitor" where
  "send_email_body msg sev st =
     (let ec = email_alerts (config st) in
      if sender_email ec = [] \<or> recipient_emails ec = [] then Inr st
      else
        (let (ts, st1) = datetime_now st;
             (out, st2) = smtp_deliver st1
         in case out of
              Delivered \<Rightarrow> Inr (console_print Email_envoye st2)
            | Raised e \<Rightarrow> Inl (e, st2)))"

text \<open>\<^verbatim>\<open>except Exception as e\<close>: the exception is printed and not raised again.\<close>

definition send_email_alert :: "message \<Rightarrow> string \<Rightarrow> monitor \<Rightarrow> monitor" where
  "send_email_alert msg sev st =
     (case send_email_body msg sev st of
        Inr st' \<Rightarrow> st'
      | Inl (e, st') \<Rightarrow> console_print (Erreur_email e) st')"

definition send_alert :: "string \<Rightarrow> message \<Rightarrow> monitor \<Rightarrow> monitor" where
  "send_alert ty msg st =
     (let sev = (if ty = ''exacerbation'' then ''high'' else ''medium'');
          st1 = save_alert ty msg sev st;
          (ts, st2) = datetime_now st1;
          st3 = console_print (Alerte msg ts) st2
      in if enabled (email_alerts (config st3)) then send_email_alert msg sev st3 else st3)"

section \<open>Threshold evaluation\<close>

text \<open>\<^verbatim>\<open>MonitoringGUI.check_measurement_alerts\<close>: four independent tests, in this order.\<close>

definition check_measurement_alerts :: "measurement \<Rightarrow> monitor \<Rightarrow> monitor" where
  "check_measurement_alerts m st =
     (let th = alert_thresholds (config st);
          st1 = (if of_int (spo2 m) < spo2_low th
                 then send_alert ''spo2_low'' (SpO2_basse (spo2 m)) st else st);
          st2 = (if of_int (heart_rate m) > heart_rate_high th
                 then send_alert ''heart_rate_high'' (Tachycardie (heart_rate m)) st1 else st1);
          st3 = (if of_int (respiratory_rate m) > respiratory_rate_high th
                 then send_alert ''respiratory_rate_high'' (Tachypnee (respiratory_rate m)) st2
                 else st2);
          st4 = (if temperature m > temperature_high th
                 then send_alert ''temperature_high'' (Fievre (temperature m)) st3 else st3)
      in st4)"

section \<open>Ingestion\<close>

text \<open>
  \<^verbatim>\<open>simulate_measurement\<close>: the sensor reading (random in the source) is an input.
  The reading is stamped with the clock, appended to every channel of
  \<^verbatim>\<open>self.data\<close> and inserted into the database. Nothing is compared and nothing
  is removed.
\<close>

definition simulate_measurement :: "reading \<Rightarrow> monitor \<Rightarrow> measurement \<times> monitor" where
  "simulate_measurement r st =
     (let (current_time, st1) = datetime_now st;
          m = \<lparr>spo2 = spo2 r, heart_rate = heart_rate r,
               respiratory_rate = respiratory_rate r, temperature = temperature r,
               systolic_bp = systolic_bp r, diastolic_bp = diastolic_bp r,
               activity_level = activity_level r, time = current_time\<rparr>;
          d = data st1;
          d' = d\<lparr>data_timestamp := data_timestamp d @ [current_time],
                 data_spo2 := data_spo2 d @ [spo2 m],
                 data_heart_rate := data_heart_rate d @ [heart_rate m],
                 data_respiratory_rate := data_respiratory_rate d @ [respiratory_rate m],
                 data_temperature := data_temperature d @ [temperature m],
                 data_systolic_bp := data_systolic_bp d @ [systolic_bp m],
                 data_diastolic_bp := data_diastolic_bp d @ [diastolic_bp m],
                 data_activity_level := data_activity_level d @ [activity_level m]\<rparr>;
          st2 = st1\<lparr>data := d'\<rparr>
      in (m, save_measurement m st2))"

text \<open>A sequence of readings taken one after the other.\<close>

fun simulate_measurements :: "reading list \<Rightarrow> monitor \<Rightarrow> monitor" where
  "simulate_measurements [] st = st"
| "simulate_measurements (r # rs) st = simulate_measurements rs (snd (simulate_measurement r st))"

section \<open>Symptoms and exacerbation\<close>

text \<open>
  \<^verbatim>\<open>str.lower()\<close> on the ASCII letters. The three labels of the rule are ASCII
  and no character outside ASCII is lowered by Python to one of their letters, so
  the membership test below agrees with Python's on every string.
\<close>

definition lower_char :: "char \<Rightarrow> char" where
  "lower_char c =
     (case map_of (zip ''ABCDEFGHIJKLMNOPQRSTUVWXYZ'' ''abcdefghijklmnopqrstuvwxyz'') c of
        Some d \<Rightarrow> d
      | None \<Rightarrow> c)"

definition lower :: "string \<Rightarrow> string" where
  "lower s = map lower_char s"

text \<open>\<^verbatim>\<open>check_exacerbation\<close>: the literal 92 is the source's.\<close>

definition check_exacerbation :: "symptom_entry \<Rightarrow> monitor \<Rightarrow> bool \<times> monitor" where
  "check_exacerbation e st =
     (if length (data_spo2 (data st)) > 0 then
        (let latest_spo2 = last (data_spo2 (data st)) in
         if lower (symptom e) \<in> set [''essoufflement'', ''toux'', ''fatigue'']
            \<and> severity e \<ge> 7 \<and> latest_spo2 < 92
         then (True, send_alert ''exacerbation'' Signes_d_exacerbation_possible st)
         else (False, st))
      else (False, st))"

definition log_symptom :: "string \<Rightarrow> int \<Rightarrow> string \<Rightarrow> monitor \<Rightarrow> symptom_entry \<times> monitor" where
  "log_symptom sy sev nt st =
     (let (ts, st1) = datetime_now st;
          entry = \<lparr>se_timestamp = ts, symptom = sy, severity = sev, se_notes = nt\<rparr>;
          st2 = st1\<lparr>symptom_log := symptom_log st1 @ [entry]\<rparr>;
          st3 = st2\<lparr>data := (data st2)\<lparr>data_symptoms :=
                   data_symptoms (data st2) @ [(sy, sev)]\<rparr>\<rparr>;
          st4 = save_symptom entry st3
      in (entry, snd (check_exacerbation entry st4)))"

section \<open>Trend forecast\<close>

text \<open>
  The Python slice \<^verbatim>\<open>xs[i:]\<close>: a negative start counts from the end and is
  clipped at the beginning of the list; \<^verbatim>\<open>xs[-0:]\<close> is the whole list.
\<close>

definition py_slice_from :: "int \<Rightarrow> 'a list \<Rightarrow> 'a list" where
  "py_slice_from i xs =
     (let n = int (length xs);
          j = (if i < 0 then max 0 (n + i) else min i n)
      in drop (nat j) xs)"

definition mean :: "real list \<Rightarrow> real" where
  "mean xs = sum_list xs / real (length xs)"

text \<open>
  Modelled from the spec: \<^verbatim>\<open>sklearn.linear_model.LinearRegression\<close> is a library
  and not under src/. The spec calls it an ordinary least-squares line over
  (index, value) pairs (4.3) with closed-form least squares as its implementation (9).
  With an intercept the library centres both columns, solves the centred problem
  (by its minimum-norm solution, which is slope 0 when every abscissa is the same)
  and sets the intercept to \<open>y_mean - coef * x_mean\<close>. The arithmetic is exact
  here; the rounding of float64 is not modelled.
\<close>

definition LinearRegression_fit :: "real list \<Rightarrow> real list \<Rightarrow> real \<times> real" where
  "LinearRegression_fit X y =
     (let x_mean = mean X;
          y_mean = mean y;
          sxx = sum_list (map (\<lambda>x. (x - x_mean) * (x - x_mean)) X);
          sxy = sum_list (map (\<lambda>(x, v). (x - x_mean) * (v - y_mean)) (zip X y));
          coef = (if sxx = 0 then 0 else sxy / sxx)
      in (coef, y_mean - coef * x_mean))"

definition LinearRegression_predict :: "real \<times> real \<Rightarrow> real list \<Rightarrow> real list" where
  "LinearRegression_predict model X = map (\<lambda>x. fst model * x + snd model) X"

text \<open>The library refuses an array with no sample, in \<^verbatim>\<open>fit\<close> and in \<^verbatim>\<open>predict\<close>.\<close>

datatype py_error = ValueError

text \<open>
  The three strings \<^verbatim>\<open>predict_deterioration\<close> returns:
  \<^verbatim>\<open>"Donnees insuffisantes pour la prediction"\<close>,
  \<^verbatim>\<open>"Deterioration prevue dans les {hours} heures. SpO2 pourrait descendre sous {spo2_low}%"\<close>
  and \<^verbatim>\<open>"Aucune deterioration significative prevue"\<close>.
\<close>

datatype forecast =
  Donnees_insuffisantes_prediction
| Deterioration_prevue int real
| Aucune_deterioration_prevue

definition predict_deterioration :: "int \<Rightarrow> monitor \<Rightarrow> (py_error + forecast) \<times> monitor" where
  "predict_deterioration hours st =
     (if int (length (data_spo2 (data st))) < window_size (prediction_settings (config st))
      then (Inr Donnees_insuffisantes_prediction, st)
      else
        (let w = window_size (prediction_settings (config st));
             spo2_data = py_slice_from (- w) (data_spo2 (data st));
             n = length spo2_data;
             X = map real [0..<n];
             y = map real_of_int spo2_data
         in if n = 0 then (Inl ValueError, st)
            else
              (let model = LinearRegression_fit X y;
                   future_X = map real [n..<n + nat hours]
               in if future_X = [] then (Inl ValueError, st)
                  else
                    (let predictions = LinearRegression_predict model future_X;
                         thr = spo2_low (alert_thresholds (config st))
                     in if list_ex (\<lambda>pred. pred < thr) predictions
                        then (Inr (Deterioration_prevue hours thr), st)
                        else (Inr Aucune_deterioration_prevue, st)))))"


section \<open>Anomaly detection\<close>

text \<open>
  The three strings \<^verbatim>\<open>detect_anomalies\<close> returns:
  \<^verbatim>\<open>"Donnees insuffisantes pour la detection d'anomalies"\<close>,
  \<^verbatim>\<open>"{anomaly_count} anomalies detectees dans les signes vitaux"\<close> and
  \<^verbatim>\<open>"Aucune anomalie detectee"\<close>.
\<close>

datatype anomaly_report =
  Donnees_insuffisantes_anomalies
| Anomalies_detectees nat
| Aucune_anomalie_detectee

text \<open>
  \<^verbatim>\<open>np.array([a, b, c]).T\<close>: one row per sample. Three lists of different
  lengths make no matrix, and the fit raises.
\<close>

definition vital_matrix :: "int list \<Rightarrow> int list \<Rightarrow> int list \<Rightarrow> py_error + (int \<times> int \<times> int) list" where
  "vital_matrix a b c =
     (if length b = length a \<and> length c = length a then Inr (zip a (zip b c))
      else Inl ValueError)"

text \<open>
  \<^verbatim>\<open>sklearn.ensemble.IsolationForest\<close> is a randomised library model: it is the
  parameter \<open>forest\<close>, which takes the contamination and the matrix it is fitted
  on and returns the label (1 or -1) it predicts for each row of that matrix.
\<close>

definition detect_anomalies ::
  "(real \<Rightarrow> (int \<times> int \<times> int) list \<Rightarrow> int list) \<Rightarrow> monitor \<Rightarrow> (py_error + anomaly_report) \<times> monitor" where
  "detect_anomalies forest st =
     (if length (data_spo2 (data st)) < 10 then (Inr Donnees_insuffisantes_anomalies, st)
      else
        (case vital_matrix (py_slice_from (- 10) (data_spo2 (data st)))
                           (py_slice_from (- 10) (data_heart_rate (data st)))
                           (py_slice_from (- 10) (data_respiratory_rate (data st))) of
           Inl err \<Rightarrow> (Inl err, st)
         | Inr vital_data \<Rightarrow>
             (let predictions = forest (1 / 10) vital_data;
                  anomaly_count = length (filter (\<lambda>p. p = - 1) predictions)
              in if anomaly_count > 2 then (Inr (Anomalies_detectees anomaly_count), st)
                 else (Inr Aucune_anomalie_detectee, st))))"

section \<open>Notions used in the statements\<close>

text \<open>
  The conditions one evaluation fires: the types of the alerts that
  \<^verbatim>\<open>check_measurement_alerts\<close> adds to the in-memory list, in order.
\<close>

definition fired_conditions :: "measurement \<Rightarrow> monitor \<Rightarrow> string list" where
  "fired_conditions m st =
     map alert_type (drop (length (alerts st)) (alerts (check_measurement_alerts m st)))"


text \<open>Concrete inputs: a reading with a given spo2, and the monitor after a run of them.\<close>

definition reading_with_spo2 :: "int \<Rightarrow> reading" where
  "reading_with_spo2 s =
     \<lparr>spo2 = s, heart_rate = 70, respiratory_rate = 16, temperature = 37,
      systolic_bp = 120, diastolic_bp = 80, activity_level = Repos\<rparr>"

definition history :: "config \<Rightarrow> (nat \<Rightarrow> smtp_outcome) \<Rightarrow> int list \<Rightarrow> monitor" where
  "history cfg out xs =
     simulate_measurements (map reading_with_spo2 xs) (init_monitor cfg (\<lambda>n. int n) out)"

definition example_measurement :: measurement where
  "example_measurement =
     \<lparr>spo2 = 90, heart_rate = 120, respiratory_rate = 20, temperature = 37,
      systolic_bp = 120, diastolic_bp = 80, activity_level = Repos, time = 0\<rparr>"

definition config_window5 :: config where
  "config_window5 = default_config\<lparr>prediction_settings := \<lparr>window_size = 5, forecast_hours = 3\<rparr>\<rparr>"


definition config_spo2_low :: "real \<Rightarrow> config" where
  "config_spo2_low t =
     default_config\<lparr>alert_thresholds := (alert_thresholds default_config)\<lparr>spo2_low := t\<rparr>\<rparr>"

definition config_email :: config where
  "config_email =
     default_config\<lparr>email_alerts :=
       \<lparr>enabled = True, smtp_server = ''smtp.gmail.com'', smtp_port = 587,
        sender_email = ''a@b.c'', sender_password = ''pw'', recipient_emails = [''d@e.f'']\<rparr>\<rparr>"

definition toux8 :: symptom_entry where
  "toux8 = \<lparr>se_timestamp = 0, symptom = ''Toux'', severity = 8, se_notes = []\<rparr>"

text \<open>An outlier model for the examples: a row is an outlier when its spo2 is below 90.\<close>

definition forest_below_90 :: "real \<Rightarrow> (int \<times> int \<times> int) list \<Rightarrow> int list" where
  "forest_below_90 c rows = map (\<lambda>(s, h, r). if s < 90 then - 1 else 1) rows"

section \<open>The alert path\<close>

lemma send_email_alert_keeps:
  "alerts (send_email_alert msg sev st) = alerts st"
  "db_alerts (send_email_alert msg sev st) = db_alerts st"
  "config (send_email_alert msg sev st) = config st"
  "data (send_email_alert msg sev st) = data st"
  by (simp_all add: send_email_alert_def send_email_body_def datetime_now_def smtp_deliver_def
      console_print_def Let_def split: smtp_outcome.splits)

lemma send_alert_alerts:
  "alerts (send_alert ty msg st) =
     alerts st @ [\<lparr>alert_timestamp = clock st (clock_reads st), alert_type = ty,
                   alert_message = msg,
                   alert_severity = (if ty = ''exacerbation'' then ''high'' else ''medium'')\<rparr>]"
  by (simp add: send_alert_def save_alert_def datetime_now_def console_print_def Let_def
      send_email_alert_keeps)

lemma send_alert_db_alerts:
  "db_alerts (send_alert ty msg st) =
     db_alerts st @ [\<lparr>alert_timestamp = clock st (clock_reads st), alert_type = ty,
                      alert_message = msg,
                      alert_severity = (if ty = ''exacerbation'' then ''high'' else ''medium'')\<rparr>]"
  by (simp add: send_alert_def save_alert_def datetime_now_def console_print_def Let_def
      send_email_alert_keeps)

lemma send_alert_config: "config (send_alert ty msg st) = config st"
  by (simp add: send_alert_def save_alert_def datetime_now_def console_print_def Let_def
      send_email_alert_keeps)

lemma send_alert_data: "data (send_alert ty msg st) = data st"
  by (simp add: send_alert_def save_alert_def datetime_now_def console_print_def Let_def
      send_email_alert_keeps)

lemma send_alert_console_raised:
  assumes "enabled (email_alerts (config st))"
    and "sender_email (email_alerts (config st)) \<noteq> []"
    and "recipient_emails (email_alerts (config st)) \<noteq> []"
    and "smtp st (smtp_attempts st) = Raised e"
  shows "console (send_alert ty msg st) =
           console st @ [Alerte msg (clock st (Suc (clock_reads st))), Erreur_email e]"
  using assms
  by (simp add: send_alert_def save_alert_def datetime_now_def console_print_def Let_def
      send_email_alert_def send_email_body_def smtp_deliver_def)

lemma fired_conditions_eq:
  "fired_conditions m st =
     (if of_int (spo2 m) < spo2_low (alert_thresholds (config st)) then [''spo2_low''] else []) @
     (if of_int (heart_rate m) > heart_rate_high (alert_thresholds (config st))
      then [''heart_rate_high''] else []) @
     (if of_int (respiratory_rate m) > respiratory_rate_high (alert_thresholds (config st))
      then [''respiratory_rate_high''] else []) @
     (if temperature m > temperature_high (alert_thresholds (config st))
      then [''temperature_high''] else [])"
  unfolding fired_conditions_def check_measurement_alerts_def Let_def
  by (simp add: send_alert_alerts send_alert_config)

lemma check_measurement_alerts_db:
  "drop (length (db_alerts st)) (db_alerts (check_measurement_alerts m st)) =
   drop (length (alerts st)) (alerts (check_measurement_alerts m st))"
  unfolding check_measurement_alerts_def Let_def
  by (simp add: send_alert_alerts send_alert_db_alerts send_alert_config)

lemma check_measurement_alerts_prefix:
  "take (length (alerts st)) (alerts (check_measurement_alerts m st)) = alerts st"
  "take (length (db_alerts st)) (db_alerts (check_measurement_alerts m st)) = db_alerts st"
  unfolding check_measurement_alerts_def Let_def
  by (simp_all add: send_alert_alerts send_alert_db_alerts send_alert_config)

lemma check_measurement_alerts_severity:
  "map alert_severity (drop (length (alerts st)) (alerts (check_measurement_alerts m st))) =
   map (\<lambda>c. ''medium'') (fired_conditions m st)"
  unfolding fired_conditions_def check_measurement_alerts_def Let_def
  by (simp add: send_alert_alerts send_alert_config)

lemma history_config: "config (simulate_measurements rs st) = config st"
  by (induction rs arbitrary: st)
     (simp_all add: simulate_measurement_def datetime_now_def save_measurement_def Let_def)

lemma history_alerts:
  "alerts (simulate_measurements rs st) = alerts st"
  "db_alerts (simulate_measurements rs st) = db_alerts st"
  by (induction rs arbitrary: st)
     (simp_all add: simulate_measurement_def datetime_now_def save_measurement_def Let_def)

text \<open>
  C1. For every measurement and configuration the threshold evaluation fires exactly
  the conditions whose rule matches: \<open>spo2_low\<close> iff spo2 is below its threshold,
  \<open>heart_rate_high\<close>, \<open>respiratory_rate_high\<close> and \<open>temperature_high\<close> iff the value
  is above its threshold; each rule is tested on its own, nothing else fires and
  nothing fires twice. The fired conditions depend on the measurement and the
  thresholds only: two monitors with the same thresholds fire the same conditions.
\<close>

theorem threshold_evaluator_fires_matching_rules:
  "(''spo2_low'' \<in> set (fired_conditions m st)
      \<longleftrightarrow> of_int (spo2 m) < spo2_low (alert_thresholds (config st))) \<and>
   (''heart_rate_high'' \<in> set (fired_conditions m st)
      \<longleftrightarrow> of_int (heart_rate m) > heart_rate_high (alert_thresholds (config st))) \<and>
   (''respiratory_rate_high'' \<in> set (fired_conditions m st)
      \<longleftrightarrow> of_int (respiratory_rate m) > respiratory_rate_high (alert_thresholds (config st))) \<and>
   (''temperature_high'' \<in> set (fired_conditions m st)
      \<longleftrightarrow> temperature m > temperature_high (alert_thresholds (config st))) \<and>
   set (fired_conditions m st)
      \<subseteq> {''spo2_low'', ''heart_rate_high'', ''respiratory_rate_high'', ''temperature_high''} \<and>
   distinct (fired_conditions m st) \<and>
   (alert_thresholds (config st') = alert_thresholds (config st)
      \<longrightarrow> fired_conditions m st' = fired_conditions m st)"
  by (simp add: fired_conditions_eq)

theorem threshold_evaluator_fires_matching_rules_witness:
  "alert_thresholds (config (history default_config (\<lambda>n. Delivered) [95, 96]))
     = alert_thresholds (config (init_monitor default_config (\<lambda>n. 0) (\<lambda>n. Delivered))) \<and>
   fired_conditions example_measurement (history default_config (\<lambda>n. Delivered) [95, 96])
     = fired_conditions example_measurement (init_monitor default_config (\<lambda>n. 0) (\<lambda>n. Delivered)) \<and>
   fired_conditions example_measurement (init_monitor default_config (\<lambda>n. 0) (\<lambda>n. Delivered))
     = [''spo2_low'', ''heart_rate_high''] \<and>
   ''spo2_low'' \<notin> set (fired_conditions (example_measurement\<lparr>spo2 := 95\<rparr>)
                        (init_monitor default_config (\<lambda>n. 0) (\<lambda>n. Delivered)))"
proof -
  let ?st = "init_monitor default_config (\<lambda>n. 0) (\<lambda>n. Delivered)"
  let ?st' = "history default_config (\<lambda>n. Delivered) [95, 96]"
  have h: "alert_thresholds (config ?st') = alert_thresholds (config ?st)"
    by (simp add: history_def history_config init_monitor_def del: simulate_measurements.simps)
  have a: "fired_conditions example_measurement ?st' = fired_conditions example_measurement ?st"
    using threshold_evaluator_fires_matching_rules [of example_measurement ?st ?st'] h by blast
  have b: "fired_conditions example_measurement ?st = [''spo2_low'', ''heart_rate_high'']"
    by (simp add: fired_conditions_eq example_measurement_def init_monitor_def default_config_def)
  have c: "''spo2_low'' \<notin> set (fired_conditions (example_measurement\<lparr>spo2 := 95\<rparr>) ?st)"
    using threshold_evaluator_fires_matching_rules [of "example_measurement\<lparr>spo2 := 95\<rparr>" ?st ?st]
    by (simp add: example_measurement_def init_monitor_def default_config_def)
  from h a b c show ?thesis by blast
qed

section \<open>Delivery failures\<close>

text \<open>
  C7. A failure of the e-mail delivery is caught inside \<^verbatim>\<open>send_email_alert\<close>: when
  the body of its \<^verbatim>\<open>try\<close> raises, the method prints the error and returns. It
  never changes the persisted alerts. \<^verbatim>\<open>send_alert\<close> has stored the alert in the
  database and in the in-memory list before the delivery starts, so for every outcome
  of the delivery the alert is the last entry of both, and \<^verbatim>\<open>send_alert\<close> returns
  a state; with delivery configured and failing, the console ends with the alert line
  and the logged error.
\<close>

theorem delivery_failure_caught_and_alert_persisted:
  "(send_email_body msg sev st = Inl (e, st1)
      \<longrightarrow> send_email_alert msg sev st = console_print (Erreur_email e) st1) \<and>
   alerts (send_email_alert msg sev st) = alerts st \<and>
   db_alerts (send_email_alert msg sev st) = db_alerts st \<and>
   alerts (send_alert ty msg st) =
     alerts st @ [\<lparr>alert_timestamp = clock st (clock_reads st), alert_type = ty,
                   alert_message = msg,
                   alert_severity = (if ty = ''exacerbation'' then ''high'' else ''medium'')\<rparr>] \<and>
   db_alerts (send_alert ty msg st) =
     db_alerts st @ [\<lparr>alert_timestamp = clock st (clock_reads st), alert_type = ty,
                      alert_message = msg,
                      alert_severity = (if ty = ''exacerbation'' then ''high'' else ''medium'')\<rparr>] \<and>
   (enabled (email_alerts (config st)) \<and> sender_email (email_alerts (config st)) \<noteq> [] \<and>
    recipient_emails (email_alerts (config st)) \<noteq> [] \<and> smtp st (smtp_attempts st) = Raised e'
      \<longrightarrow> console (send_alert ty msg st) =
            console st @ [Alerte msg (clock st (Suc (clock_reads st))), Erreur_email e'])"
proof -
  have caught: "send_email_body msg sev st = Inl (e, st1)
      \<longrightarrow> send_email_alert msg sev st = console_print (Erreur_email e) st1"
    by (simp add: send_email_alert_def)
  have logged: "enabled (email_alerts (config st)) \<and> sender_email (email_alerts (config st)) \<noteq> [] \<and>
    recipient_emails (email_alerts (config st)) \<noteq> [] \<and> smtp st (smtp_attempts st) = Raised e'
      \<longrightarrow> console (send_alert ty msg st) =
            console st @ [Alerte msg (clock st (Suc (clock_reads st))), Erreur_email e']"
    using send_alert_console_raised [of st e' ty msg] by blast
  from caught logged show ?thesis
    by (simp add: send_email_alert_keeps send_alert_alerts send_alert_db_alerts)
qed

theorem delivery_failure_caught_and_alert_persisted_witness:
  "send_email_body (SpO2_basse 90) ''medium'' (history config_email (\<lambda>n. Raised ''refused'') [90])
     = Inl (''refused'',
            (history config_email (\<lambda>n. Raised ''refused'') [90])\<lparr>clock_reads := 2, smtp_attempts := 1\<rparr>) \<and>
   send_email_alert (SpO2_basse 90) ''medium'' (history config_email (\<lambda>n. Raised ''refused'') [90])
     = console_print (Erreur_email ''refused'')
         ((history config_email (\<lambda>n. Raised ''refused'') [90])\<lparr>clock_reads := 2, smtp_attempts := 1\<rparr>) \<and>
   alerts (send_alert ''spo2_low'' (SpO2_basse 90) (history config_email (\<lambda>n. Raised ''refused'') [90]))
     = [\<lparr>alert_timestamp = 1, alert_type = ''spo2_low'', alert_message = SpO2_basse 90,
         alert_severity = ''medium''\<rparr>] \<and>
   db_alerts (send_alert ''spo2_low'' (SpO2_basse 90) (history config_email (\<lambda>n. Raised ''refused'') [90]))
     = [\<lparr>alert_timestamp = 1, alert_type = ''spo2_low'', alert_message = SpO2_basse 90,
         alert_severity = ''medium''\<rparr>] \<and>
   console (send_alert ''spo2_low'' (SpO2_basse 90) (history config_email (\<lambda>n. Raised ''refused'') [90]))
     = [Alerte (SpO2_basse 90) 2, Erreur_email ''refused'']"
proof -
  let ?st = "history config_email (\<lambda>n. Raised ''refused'') [90]"
  let ?st1 = "?st\<lparr>clock_reads := 2, smtp_attempts := 1\<rparr>"
  have st: "?st =
     \<lparr>config = config_email,
      data = \<lparr>data_timestamp = [0], data_spo2 = [90], data_heart_rate = [70],
              data_respiratory_rate = [16], data_temperature = [37], data_systolic_bp = [120],
              data_diastolic_bp = [80], data_symptoms = [], data_activity_level = [Repos]\<rparr>,
      symptom_log = [], alerts = [],
      db_measurements = [\<lparr>spo2 = 90, heart_rate = 70, respiratory_rate = 16, temperature = 37,
          systolic_bp = 120, diastolic_bp = 80, activity_level = Repos, time = 0\<rparr>],
      db_symptoms = [], db_alerts = [], console = [],
      clock = (\<lambda>n. int n), clock_reads = 1, smtp = (\<lambda>n. Raised ''refused''), smtp_attempts = 0\<rparr>"
    by (simp add: history_def init_monitor_def simulate_measurement_def datetime_now_def
        save_measurement_def reading_with_spo2_def empty_data_def Let_def)
  have body: "send_email_body (SpO2_basse 90) ''medium'' ?st = Inl (''refused'', ?st1)"
    unfolding st
    by (simp add: send_email_body_def config_email_def default_config_def datetime_now_def
        smtp_deliver_def Let_def)
  have hyps: "enabled (email_alerts (config ?st)) \<and> sender_email (email_alerts (config ?st)) \<noteq> [] \<and>
    recipient_emails (email_alerts (config ?st)) \<noteq> [] \<and> smtp ?st (smtp_attempts ?st) = Raised ''refused''"
    unfolding st by (simp add: config_email_def default_config_def)
  have vals: "alerts ?st = []" "db_alerts ?st = []" "console ?st = []"
    "clock ?st (clock_reads ?st) = 1" "clock ?st (Suc (clock_reads ?st)) = 2"
    unfolding st by simp_all
  show ?thesis
    using delivery_failure_caught_and_alert_persisted
      [of "SpO2_basse 90" "''medium''" ?st "''refused''" ?st1 "''spo2_low''" "''refused''"]
      body hyps
    by (simp add: vals)
qed

section \<open>Ingestion\<close>

lemma simulate_measurement_data:
  "data (snd (simulate_measurement r st)) =
     (data st)\<lparr>data_timestamp := data_timestamp (data st) @ [clock st (clock_reads st)],
               data_spo2 := data_spo2 (data st) @ [spo2 r],
               data_heart_rate := data_heart_rate (data st) @ [heart_rate r],
               data_respiratory_rate := data_respiratory_rate (data st) @ [respiratory_rate r],
               data_temperature := data_temperature (data st) @ [temperature r],
               data_systolic_bp := data_systolic_bp (data st) @ [systolic_bp r],
               data_diastolic_bp := data_diastolic_bp (data st) @ [diastolic_bp r],
               data_activity_level := data_activity_level (data st) @ [activity_level r]\<rparr>"
  by (simp add: simulate_measurement_def datetime_now_def save_measurement_def Let_def)

lemma simulate_measurement_clock:
  "clock (snd (simulate_measurement r st)) = clock st"
  "clock_reads (snd (simulate_measurement r st)) = Suc (clock_reads st)"
  by (simp_all add: simulate_measurement_def datetime_now_def save_measurement_def Let_def)

lemma simulate_measurements_channels:
  "data_spo2 (data (simulate_measurements rs st)) = data_spo2 (data st) @ map spo2 rs"
  "data_heart_rate (data (simulate_measurements rs st)) =
     data_heart_rate (data st) @ map heart_rate rs"
  "data_respiratory_rate (data (simulate_measurements rs st)) =
     data_respiratory_rate (data st) @ map respiratory_rate rs"
  "data_temperature (data (simulate_measurements rs st)) =
     data_temperature (data st) @ map temperature rs"
  by (induction rs arbitrary: st) (simp_all add: simulate_measurement_data)

lemma simulate_measurements_timestamps:
  "data_timestamp (data (simulate_measurements rs st)) =
     data_timestamp (data st) @ map (clock st) [clock_reads st..<clock_reads st + length rs]"
proof (induction rs arbitrary: st)
  case Nil
  show ?case by simp
next
  case (Cons r rs)
  have "[clock_reads st..<clock_reads st + length (r # rs)] =
          clock_reads st # [Suc (clock_reads st)..<Suc (clock_reads st) + length rs]"
    using upt_conv_Cons [of "clock_reads st" "clock_reads st + length (r # rs)"] by simp
  then show ?case
    by (simp add: Cons.IH simulate_measurement_data simulate_measurement_clock)
qed

lemma history_spo2: "data_spo2 (data (history cfg out xs)) = xs"
  by (simp add: history_def simulate_measurements_channels init_monitor_def empty_data_def
      reading_with_spo2_def comp_def del: simulate_measurements.simps)

lemma history_heart_rate: "data_heart_rate (data (history cfg out xs)) = map (\<lambda>x. 70) xs"
  by (simp add: history_def simulate_measurements_channels init_monitor_def empty_data_def
      reading_with_spo2_def comp_def del: simulate_measurements.simps)

lemma history_respiratory_rate:
  "data_respiratory_rate (data (history cfg out xs)) = map (\<lambda>x. 16) xs"
  by (simp add: history_def simulate_measurements_channels init_monitor_def empty_data_def
      reading_with_spo2_def comp_def del: simulate_measurements.simps)

lemma history_cfg: "config (history cfg out xs) = cfg"
  by (simp add: history_def history_config init_monitor_def del: simulate_measurements.simps)

lemma history_no_alerts:
  "alerts (history cfg out xs) = []" "db_alerts (history cfg out xs) = []"
  by (simp_all add: history_def history_alerts init_monitor_def del: simulate_measurements.simps)

section \<open>Slices\<close>

lemma py_slice_from_last:
  "1 \<le> n \<Longrightarrow> py_slice_from (- int n) xs = drop (length xs - n) xs"
  by (auto simp: py_slice_from_def Let_def max_def intro!: arg_cong2[where f = drop])


section \<open>Least squares\<close>








section \<open>Trend forecast\<close>

lemma predict_deterioration_state: "snd (predict_deterioration hours st) = st"
  by (simp add: predict_deterioration_def Let_def)


lemma forecast_decreasing:
  "fst (predict_deterioration 3 (history config_window5 out [98, 96, 94, 92, 90])) =
     Inr (Deterioration_prevue 3 92)"
  by (simp add: predict_deterioration_def Let_def history_spo2 history_cfg config_window5_def
      default_config_def py_slice_from_def LinearRegression_fit_def LinearRegression_predict_def
      mean_def eval_nat_numeral)





text \<open>
  C9. With fewer samples than its minimum (the configured window size for the
  forecast, 10 for the anomaly detection) each analysis returns its insufficient-data
  result as an ordinary value, whatever the samples, the horizon and the outlier model
  are, and leaves the monitor as it was.
\<close>

theorem insufficient_data_is_a_result:
  "(int (length (data_spo2 (data st))) < window_size (prediction_settings (config st))
      \<longrightarrow> predict_deterioration hours st = (Inr Donnees_insuffisantes_prediction, st)) \<and>
   (length (data_spo2 (data st)) < 10
      \<longrightarrow> detect_anomalies forest st = (Inr Donnees_insuffisantes_anomalies, st))"
  by (simp add: predict_deterioration_def detect_anomalies_def)

theorem insufficient_data_is_a_result_witness:
  "int (length (data_spo2 (data (history default_config (\<lambda>n. Delivered) [95, 91, 97]))))
     < window_size (prediction_settings (config (history default_config (\<lambda>n. Delivered) [95, 91, 97]))) \<and>
   length (data_spo2 (data (history default_config (\<lambda>n. Delivered) [95, 91, 97]))) < 10 \<and>
   predict_deterioration 6 (history default_config (\<lambda>n. Delivered) [95, 91, 97]) =
     (Inr Donnees_insuffisantes_prediction, history default_config (\<lambda>n. Delivered) [95, 91, 97]) \<and>
   detect_anomalies forest_below_90 (history default_config (\<lambda>n. Delivered) [95, 91, 97]) =
     (Inr Donnees_insuffisantes_anomalies, history default_config (\<lambda>n. Delivered) [95, 91, 97])"
proof -
  let ?st = "history default_config (\<lambda>n. Delivered) [95, 91, 97]"
  have a: "int (length (data_spo2 (data ?st))) < window_size (prediction_settings (config ?st))"
    by (simp add: history_spo2 history_cfg default_config_def)
  have b: "length (data_spo2 (data ?st)) < 10"
    by (simp add: history_spo2)
  from insufficient_data_is_a_result [of ?st 6 forest_below_90] a b
  show ?thesis by blast
qed

section \<open>Anomaly detection\<close>

lemma detect_anomalies_state: "snd (detect_anomalies forest st) = st"
  by (simp add: detect_anomalies_def Let_def split: sum.splits)

lemma zip3_drop_nth:
  assumes "length b = length a" and "length c = length a"
  shows "zip (drop k a) (zip (drop k b) (drop k c)) =
           map (\<lambda>i. (a ! i, b ! i, c ! i)) [k..<length a]"
proof (rule nth_equalityI)
  show "length (zip (drop k a) (zip (drop k b) (drop k c))) =
          length (map (\<lambda>i. (a ! i, b ! i, c ! i)) [k..<length a])"
    using assms by simp
next
  fix i
  assume "i < length (zip (drop k a) (zip (drop k b) (drop k c)))"
  then have i: "i < length a - k" using assms by simp
  then show "zip (drop k a) (zip (drop k b) (drop k c)) ! i =
          map (\<lambda>i. (a ! i, b ! i, c ! i)) [k..<length a] ! i"
    using assms by simp
qed

lemma detect_anomalies_rows:
  assumes hr: "length (data_heart_rate (data st)) = length (data_spo2 (data st))"
    and rr: "length (data_respiratory_rate (data st)) = length (data_spo2 (data st))"
    and len: "10 \<le> length (data_spo2 (data st))"
  shows "fst (detect_anomalies forest st) =
     (if 2 < length (filter (\<lambda>p. p = - 1)
                (forest (1 / 10)
                  (map (\<lambda>i. (data_spo2 (data st) ! i, data_heart_rate (data st) ! i,
                             data_respiratory_rate (data st) ! i))
                     [length (data_spo2 (data st)) - 10..<length (data_spo2 (data st))])))
      then Inr (Anomalies_detectees
             (length (filter (\<lambda>p. p = - 1)
                (forest (1 / 10)
                  (map (\<lambda>i. (data_spo2 (data st) ! i, data_heart_rate (data st) ! i,
                             data_respiratory_rate (data st) ! i))
                     [length (data_spo2 (data st)) - 10..<length (data_spo2 (data st))])))))
      else Inr Aucune_anomalie_detectee)"
proof -
  let ?a = "data_spo2 (data st)"
  let ?b = "data_heart_rate (data st)"
  let ?c = "data_respiratory_rate (data st)"
  have s: "py_slice_from (- 10) xs = drop (length xs - 10) xs" for xs :: "int list"
    using py_slice_from_last [of 10 xs] by simp
  have m: "vital_matrix (py_slice_from (- 10) ?a) (py_slice_from (- 10) ?b)
             (py_slice_from (- 10) ?c) =
           Inr (map (\<lambda>i. (?a ! i, ?b ! i, ?c ! i)) [length ?a - 10..<length ?a])"
    using zip3_drop_nth [OF hr rr, of "length ?a - 10"] hr rr
    by (simp add: vital_matrix_def s)
  have "\<not> length ?a < 10" using len by simp
  then show ?thesis
    by (simp add: detect_anomalies_def m Let_def)
qed

text \<open>
  C6. On a monitor whose three vital channels have the same length (every monitor
  that was filled by \<^verbatim>\<open>simulate_measurement\<close>), the anomaly detection returns the
  insufficient-data result when fewer than 10 samples exist. Otherwise it gives the
  outlier model, with contamination 0.1, the 10 rows (spo2, heart rate, respiratory
  rate) of the last 10 samples, counts the rows labelled -1, and reports that count
  as anomalies exactly when it exceeds 2, and no anomaly otherwise.
\<close>

theorem anomaly_scorer_counts_outliers:
  assumes "length (data_heart_rate (data st)) = length (data_spo2 (data st))"
    and "length (data_respiratory_rate (data st)) = length (data_spo2 (data st))"
  shows
    "(let n = length (data_spo2 (data st));
          rows = map (\<lambda>i. (data_spo2 (data st) ! i, data_heart_rate (data st) ! i,
                           data_respiratory_rate (data st) ! i)) [n - 10..<n];
          c = length (filter (\<lambda>p. p = - 1) (forest (1 / 10) rows))
      in (n < 10 \<longrightarrow> fst (detect_anomalies forest st) = Inr Donnees_insuffisantes_anomalies) \<and>
         (10 \<le> n \<longrightarrow>
            length rows = 10 \<and>
            (fst (detect_anomalies forest st) = Inr (Anomalies_detectees c) \<longleftrightarrow> 2 < c) \<and>
            (fst (detect_anomalies forest st) = Inr Aucune_anomalie_detectee \<longleftrightarrow> c \<le> 2)))"
proof -
  have short: "length (data_spo2 (data st)) < 10
      \<longrightarrow> fst (detect_anomalies forest st) = Inr Donnees_insuffisantes_anomalies"
    by (simp add: detect_anomalies_def)
  show ?thesis
    unfolding Let_def
    using short detect_anomalies_rows [OF assms, of forest]
    by (auto split: if_splits)
qed

theorem anomaly_scorer_counts_outliers_witness:
  "length (data_heart_rate (data (history default_config (\<lambda>n. Delivered)
             [95, 88, 96, 97, 89, 95, 94, 87, 96, 95, 97]))) =
   length (data_spo2 (data (history default_config (\<lambda>n. Delivered)
             [95, 88, 96, 97, 89, 95, 94, 87, 96, 95, 97]))) \<and>
   length (data_respiratory_rate (data (history default_config (\<lambda>n. Delivered)
             [95, 88, 96, 97, 89, 95, 94, 87, 96, 95, 97]))) =
   length (data_spo2 (data (history default_config (\<lambda>n. Delivered)
             [95, 88, 96, 97, 89, 95, 94, 87, 96, 95, 97]))) \<and>
   fst (detect_anomalies forest_below_90 (history default_config (\<lambda>n. Delivered)
             [95, 88, 96, 97, 89, 95, 94, 87, 96, 95, 97])) = Inr (Anomalies_detectees 3)"
proof -
  let ?st = "history default_config (\<lambda>n. Delivered) [95, 88, 96, 97, 89, 95, 94, 87, 96, 95, 97]"
  have a: "length (data_heart_rate (data ?st)) = length (data_spo2 (data ?st))"
    by (simp add: history_spo2 history_heart_rate)
  have b: "length (data_respiratory_rate (data ?st)) = length (data_spo2 (data ?st))"
    by (simp add: history_spo2 history_respiratory_rate)
  have c: "fst (detect_anomalies forest_below_90 ?st) = Inr (Anomalies_detectees 3)"
    using anomaly_scorer_counts_outliers [OF a b, of forest_below_90]
    by (simp add: Let_def history_spo2 history_heart_rate history_respiratory_rate
        forest_below_90_def eval_nat_numeral upt_rec)
  from a b c show ?thesis by blast
qed

text \<open>
  C10. On a monitor with aligned channels and at least 10 samples, and under every
  configuration put in its place (so for every \<open>window_size\<close>), the anomaly detection
  gives the outlier model exactly 10 rows, the rows (spo2, heart rate, respiratory
  rate) of the last 10 samples, and its result is the count of the rows the model
  labels -1 when that count exceeds 2 and no anomaly otherwise, for every outlier
  model. Replacing the configuration never changes its result. Two monitors with
  aligned channels of at least 10 samples whose last 10 samples agree return the same
  result whenever their outlier models label those 10 rows alike. The forecast does
  read \<open>window_size\<close>: on the same five samples it gives the insufficient-data result
  with window size 10 and a forecast with window size 5.
\<close>

theorem anomaly_scorer_window_is_last_10:
  "(length (data_heart_rate (data st)) = length (data_spo2 (data st)) \<and>
    length (data_respiratory_rate (data st)) = length (data_spo2 (data st)) \<and>
    10 \<le> length (data_spo2 (data st))
    \<longrightarrow> length (map (\<lambda>i. (data_spo2 (data st) ! i, data_heart_rate (data st) ! i,
                           data_respiratory_rate (data st) ! i))
                  [length (data_spo2 (data st)) - 10..<length (data_spo2 (data st))]) = 10 \<and>
        fst (detect_anomalies forest (st\<lparr>config := cfg\<rparr>)) =
          (if 2 < length (filter (\<lambda>p. p = - 1)
                 (forest (1 / 10)
                   (map (\<lambda>i. (data_spo2 (data st) ! i, data_heart_rate (data st) ! i,
                              data_respiratory_rate (data st) ! i))
                      [length (data_spo2 (data st)) - 10..<length (data_spo2 (data st))])))
           then Inr (Anomalies_detectees
                  (length (filter (\<lambda>p. p = - 1)
                     (forest (1 / 10)
                       (map (\<lambda>i. (data_spo2 (data st) ! i, data_heart_rate (data st) ! i,
                                  data_respiratory_rate (data st) ! i))
                          [length (data_spo2 (data st)) - 10..<length (data_spo2 (data st))])))))
           else Inr Aucune_anomalie_detectee)) \<and>
   fst (detect_anomalies forest (st\<lparr>config := cfg\<rparr>)) = fst (detect_anomalies forest st) \<and>
   (length (data_heart_rate (data st)) = length (data_spo2 (data st)) \<and>
    length (data_respiratory_rate (data st)) = length (data_spo2 (data st)) \<and>
    length (data_heart_rate (data st')) = length (data_spo2 (data st')) \<and>
    length (data_respiratory_rate (data st')) = length (data_spo2 (data st')) \<and>
    10 \<le> length (data_spo2 (data st)) \<and> 10 \<le> length (data_spo2 (data st')) \<and>
    drop (length (data_spo2 (data st')) - 10) (data_spo2 (data st')) =
      drop (length (data_spo2 (data st)) - 10) (data_spo2 (data st)) \<and>
    drop (length (data_heart_rate (data st')) - 10) (data_heart_rate (data st')) =
      drop (length (data_heart_rate (data st)) - 10) (data_heart_rate (data st)) \<and>
    drop (length (data_respiratory_rate (data st')) - 10) (data_respiratory_rate (data st')) =
      drop (length (data_respiratory_rate (data st)) - 10) (data_respiratory_rate (data st)) \<and>
    forest' (1 / 10)
      (map (\<lambda>i. (data_spo2 (data st) ! i, data_heart_rate (data st) ! i,
                 data_respiratory_rate (data st) ! i))
         [length (data_spo2 (data st)) - 10..<length (data_spo2 (data st))]) =
    forest (1 / 10)
      (map (\<lambda>i. (data_spo2 (data st) ! i, data_heart_rate (data st) ! i,
                 data_respiratory_rate (data st) ! i))
         [length (data_spo2 (data st)) - 10..<length (data_spo2 (data st))])
    \<longrightarrow> fst (detect_anomalies forest' st') = fst (detect_anomalies forest st)) \<and>
   fst (predict_deterioration 3 (history default_config out [98, 96, 94, 92, 90])) =
     Inr Donnees_insuffisantes_prediction \<and>
   fst (predict_deterioration 3 (history config_window5 out [98, 96, 94, 92, 90])) =
     Inr (Deterioration_prevue 3 92)"
proof -
  let ?a = "data_spo2 (data st)"
  let ?b = "data_heart_rate (data st)"
  let ?c = "data_respiratory_rate (data st)"
  let ?rows = "map (\<lambda>i. (?a ! i, ?b ! i, ?c ! i)) [length ?a - 10..<length ?a]"
  have cfg: "fst (detect_anomalies forest (st\<lparr>config := cfg\<rparr>)) = fst (detect_anomalies forest st)"
    by (simp add: detect_anomalies_def Let_def split: sum.splits)
  have rows: "length ?rows = 10 \<and>
      fst (detect_anomalies forest (st\<lparr>config := cfg\<rparr>)) =
        (if 2 < length (filter (\<lambda>p. p = - 1) (forest (1 / 10) ?rows))
         then Inr (Anomalies_detectees (length (filter (\<lambda>p. p = - 1) (forest (1 / 10) ?rows))))
         else Inr Aucune_anomalie_detectee)"
    if al: "length ?b = length ?a" "length ?c = length ?a" and len: "10 \<le> length ?a"
  proof -
    have "length ?rows = 10" using len by simp
    with detect_anomalies_rows [OF al len, of forest] cfg show ?thesis by simp
  qed
  have s: "py_slice_from (- 10) xs = drop (length xs - 10) xs" for xs :: "int list"
    using py_slice_from_last [of 10 xs] by simp
  have same: "fst (detect_anomalies forest' st') = fst (detect_anomalies forest st)"
    if al: "length ?b = length ?a" "length ?c = length ?a"
      and al': "length (data_heart_rate (data st')) = length (data_spo2 (data st'))"
        "length (data_respiratory_rate (data st')) = length (data_spo2 (data st'))"
      and len: "10 \<le> length ?a" and len': "10 \<le> length (data_spo2 (data st'))"
      and d1: "drop (length (data_spo2 (data st')) - 10) (data_spo2 (data st')) =
         drop (length ?a - 10) ?a"
      and d2: "drop (length (data_heart_rate (data st')) - 10) (data_heart_rate (data st')) =
         drop (length ?b - 10) ?b"
      and d3: "drop (length (data_respiratory_rate (data st')) - 10) (data_respiratory_rate (data st')) =
         drop (length ?c - 10) ?c"
      and lab: "forest' (1 / 10) ?rows = forest (1 / 10) ?rows"
  proof -
    let ?a' = "data_spo2 (data st')"
    let ?b' = "data_heart_rate (data st')"
    let ?c' = "data_respiratory_rate (data st')"
    let ?rows' = "map (\<lambda>i. (?a' ! i, ?b' ! i, ?c' ! i)) [length ?a' - 10..<length ?a']"
    have e2: "drop (length ?a' - 10) ?b' = drop (length ?a - 10) ?b"
      using d2 al al' by simp
    have e3: "drop (length ?a' - 10) ?c' = drop (length ?a - 10) ?c"
      using d3 al al' by simp
    have "?rows' = zip (drop (length ?a' - 10) ?a')
        (zip (drop (length ?a' - 10) ?b') (drop (length ?a' - 10) ?c'))"
      using zip3_drop_nth [OF al', of "length ?a' - 10"] by simp
    also have "\<dots> = zip (drop (length ?a - 10) ?a)
        (zip (drop (length ?a - 10) ?b) (drop (length ?a - 10) ?c))"
      by (simp only: d1 e2 e3)
    also have "\<dots> = ?rows"
      using zip3_drop_nth [OF al, of "length ?a - 10"] by simp
    finally have rows_eq: "?rows' = ?rows" .
    show ?thesis
      by (simp only: detect_anomalies_rows [OF al len, of forest]
          detect_anomalies_rows [OF al' len', of forest'] rows_eq lab)
  qed
  have short: "fst (predict_deterioration 3 (history default_config out [98, 96, 94, 92, 90])) =
      Inr Donnees_insuffisantes_prediction"
    by (simp add: predict_deterioration_def history_spo2 history_cfg default_config_def)
  from cfg rows same short forecast_decreasing [of out] show ?thesis by blast
qed

theorem anomaly_scorer_window_is_last_10_witness:
  "fst (detect_anomalies forest_below_90
          ((history default_config (\<lambda>n. Delivered) [95, 88, 96, 97, 89, 95, 94, 87, 96, 95, 97])
             \<lparr>config := config_window5\<rparr>)) = Inr (Anomalies_detectees 3) \<and>
   fst (detect_anomalies forest_below_90
          (history config_window5 (\<lambda>n. Delivered) [80, 95, 88, 96, 97, 89, 95, 94, 87, 96, 95, 97])) =
   fst (detect_anomalies forest_below_90
          (history default_config (\<lambda>n. Delivered) [95, 88, 96, 97, 89, 95, 94, 87, 96, 95, 97])) \<and>
   fst (detect_anomalies forest_below_90
          (history default_config (\<lambda>n. Delivered) [95, 88, 96, 97, 89, 95, 94, 87, 96, 95, 97])) =
     Inr (Anomalies_detectees 3)"
proof -
  let ?st = "history default_config (\<lambda>n. Delivered) [95, 88, 96, 97, 89, 95, 94, 87, 96, 95, 97]"
  let ?st' = "history config_window5 (\<lambda>n. Delivered) [80, 95, 88, 96, 97, 89, 95, 94, 87, 96, 95, 97]"
  note t = anomaly_scorer_window_is_last_10
      [where forest = forest_below_90 and forest' = forest_below_90 and st = ?st and st' = ?st'
         and cfg = config_window5 and out = "\<lambda>n. Delivered"]
  have al: "length (data_heart_rate (data ?st)) = length (data_spo2 (data ?st)) \<and>
    length (data_respiratory_rate (data ?st)) = length (data_spo2 (data ?st)) \<and>
    10 \<le> length (data_spo2 (data ?st))"
    by (simp add: history_spo2 history_heart_rate history_respiratory_rate)
  have hyp: "length (data_heart_rate (data ?st)) = length (data_spo2 (data ?st)) \<and>
    length (data_respiratory_rate (data ?st)) = length (data_spo2 (data ?st)) \<and>
    length (data_heart_rate (data ?st')) = length (data_spo2 (data ?st')) \<and>
    length (data_respiratory_rate (data ?st')) = length (data_spo2 (data ?st')) \<and>
    10 \<le> length (data_spo2 (data ?st)) \<and> 10 \<le> length (data_spo2 (data ?st')) \<and>
    drop (length (data_spo2 (data ?st')) - 10) (data_spo2 (data ?st')) =
      drop (length (data_spo2 (data ?st)) - 10) (data_spo2 (data ?st)) \<and>
    drop (length (data_heart_rate (data ?st')) - 10) (data_heart_rate (data ?st')) =
      drop (length (data_heart_rate (data ?st)) - 10) (data_heart_rate (data ?st)) \<and>
    drop (length (data_respiratory_rate (data ?st')) - 10) (data_respiratory_rate (data ?st')) =
      drop (length (data_respiratory_rate (data ?st)) - 10) (data_respiratory_rate (data ?st))"
    by (simp add: history_spo2 history_heart_rate history_respiratory_rate)
  from t al have "fst (detect_anomalies forest_below_90 (?st\<lparr>config := config_window5\<rparr>)) =
      (if 2 < length (filter (\<lambda>p. p = - 1)
             (forest_below_90 (1 / 10)
               (map (\<lambda>i. (data_spo2 (data ?st) ! i, data_heart_rate (data ?st) ! i,
                          data_respiratory_rate (data ?st) ! i))
                  [length (data_spo2 (data ?st)) - 10..<length (data_spo2 (data ?st))])))
       then Inr (Anomalies_detectees
              (length (filter (\<lambda>p. p = - 1)
                 (forest_below_90 (1 / 10)
                   (map (\<lambda>i. (data_spo2 (data ?st) ! i, data_heart_rate (data ?st) ! i,
                              data_respiratory_rate (data ?st) ! i))
                      [length (data_spo2 (data ?st)) - 10..<length (data_spo2 (data ?st))])))))
       else Inr Aucune_anomalie_detectee)"
    by blast
  then have w: "fst (detect_anomalies forest_below_90 (?st\<lparr>config := config_window5\<rparr>)) =
      Inr (Anomalies_detectees 3)"
    by (simp add: history_spo2 history_heart_rate history_respiratory_rate
        forest_below_90_def eval_nat_numeral upt_rec)
  from t hyp have eq: "fst (detect_anomalies forest_below_90 ?st') =
      fst (detect_anomalies forest_below_90 ?st)"
    by blast
  from t w have v: "fst (detect_anomalies forest_below_90 ?st) = Inr (Anomalies_detectees 3)"
    by simp
  from w eq v show ?thesis by blast
qed

section \<open>The in-memory history\<close>

lemma simulate_measurements_more_channels:
  "data_systolic_bp (data (simulate_measurements rs st)) =
     data_systolic_bp (data st) @ map systolic_bp rs"
  "data_diastolic_bp (data (simulate_measurements rs st)) =
     data_diastolic_bp (data st) @ map diastolic_bp rs"
  "data_activity_level (data (simulate_measurements rs st)) =
     data_activity_level (data st) @ map activity_level rs"
  "data_symptoms (data (simulate_measurements rs st)) = data_symptoms (data st)"
  by (induction rs arbitrary: st) (simp_all add: simulate_measurement_data)

text \<open>
  C4, as the code has it. The in-memory history has no capacity: after any sequence of
  measurements each of the eight channels (timestamp, spo2, heart rate, respiratory
  rate, temperature, systolic and diastolic pressure, activity level) holds what it
  held before followed by the value of every measurement of the sequence, in the
  order they arrived, the timestamps being the clock values read at each arrival;
  nothing is evicted and the symptom channel is untouched. The most recent \<open>n\<close>
  values of a channel (for \<open>n\<close> at least 1) are what the slice \<^verbatim>\<open>[-n:]\<close> of that
  channel yields when an analysis runs.
\<close>

theorem history_keeps_every_measurement:
  "data_timestamp (data (simulate_measurements rs st)) =
     data_timestamp (data st) @ map (clock st) [clock_reads st..<clock_reads st + length rs] \<and>
   data_spo2 (data (simulate_measurements rs st)) = data_spo2 (data st) @ map spo2 rs \<and>
   data_heart_rate (data (simulate_measurements rs st)) =
     data_heart_rate (data st) @ map heart_rate rs \<and>
   data_respiratory_rate (data (simulate_measurements rs st)) =
     data_respiratory_rate (data st) @ map respiratory_rate rs \<and>
   data_temperature (data (simulate_measurements rs st)) =
     data_temperature (data st) @ map temperature rs \<and>
   data_systolic_bp (data (simulate_measurements rs st)) =
     data_systolic_bp (data st) @ map systolic_bp rs \<and>
   data_diastolic_bp (data (simulate_measurements rs st)) =
     data_diastolic_bp (data st) @ map diastolic_bp rs \<and>
   data_activity_level (data (simulate_measurements rs st)) =
     data_activity_level (data st) @ map activity_level rs \<and>
   data_symptoms (data (simulate_measurements rs st)) = data_symptoms (data st) \<and>
   length (data_spo2 (data (simulate_measurements rs st))) =
     length (data_spo2 (data st)) + length rs \<and>
   (1 \<le> n \<longrightarrow>
      py_slice_from (- int n) (data_timestamp (data (simulate_measurements rs st))) =
        drop (length (data_timestamp (data st)) + length rs - n)
          (data_timestamp (data st) @ map (clock st) [clock_reads st..<clock_reads st + length rs]) \<and>
      py_slice_from (- int n) (data_spo2 (data (simulate_measurements rs st))) =
        drop (length (data_spo2 (data st)) + length rs - n) (data_spo2 (data st) @ map spo2 rs) \<and>
      py_slice_from (- int n) (data_heart_rate (data (simulate_measurements rs st))) =
        drop (length (data_heart_rate (data st)) + length rs - n)
          (data_heart_rate (data st) @ map heart_rate rs) \<and>
      py_slice_from (- int n) (data_respiratory_rate (data (simulate_measurements rs st))) =
        drop (length (data_respiratory_rate (data st)) + length rs - n)
          (data_respiratory_rate (data st) @ map respiratory_rate rs) \<and>
      py_slice_from (- int n) (data_temperature (data (simulate_measurements rs st))) =
        drop (length (data_temperature (data st)) + length rs - n)
          (data_temperature (data st) @ map temperature rs) \<and>
      py_slice_from (- int n) (data_systolic_bp (data (simulate_measurements rs st))) =
        drop (length (data_systolic_bp (data st)) + length rs - n)
          (data_systolic_bp (data st) @ map systolic_bp rs) \<and>
      py_slice_from (- int n) (data_diastolic_bp (data (simulate_measurements rs st))) =
        drop (length (data_diastolic_bp (data st)) + length rs - n)
          (data_diastolic_bp (data st) @ map diastolic_bp rs) \<and>
      py_slice_from (- int n) (data_activity_level (data (simulate_measurements rs st))) =
        drop (length (data_activity_level (data st)) + length rs - n)
          (data_activity_level (data st) @ map activity_level rs))"
  by (simp add: simulate_measurements_channels simulate_measurements_more_channels
      simulate_measurements_timestamps py_slice_from_last)

theorem history_keeps_every_measurement_witness:
  "(1::nat) \<le> 10 \<and>
   data_spo2 (data (history default_config (\<lambda>n. Delivered)
      [95, 88, 96, 97, 89, 95, 94, 87, 96, 95, 97])) =
     [95, 88, 96, 97, 89, 95, 94, 87, 96, 95, 97] \<and>
   py_slice_from (- int 10) (data_spo2 (data (history default_config (\<lambda>n. Delivered)
      [95, 88, 96, 97, 89, 95, 94, 87, 96, 95, 97]))) =
     [88, 96, 97, 89, 95, 94, 87, 96, 95, 97] \<and>
   data_diastolic_bp (data (history default_config (\<lambda>n. Delivered)
      [95, 88, 96, 97, 89, 95, 94, 87, 96, 95, 97])) =
     [80, 80, 80, 80, 80, 80, 80, 80, 80, 80, 80] \<and>
   data_timestamp (data (history default_config (\<lambda>n. Delivered)
      [95, 88, 96, 97, 89, 95, 94, 87, 96, 95, 97])) =
     [0, 1, 2, 3, 4, 5, 6, 7, 8, 9, 10]"
proof -
  let ?rs = "map reading_with_spo2 [95, 88, 96, 97, 89, 95, 94, 87, 96, 95, 97]"
  let ?st = "init_monitor default_config (\<lambda>n. int n) (\<lambda>n. Delivered)"
  have h: "(1::nat) \<le> 10" by simp
  note t = history_keeps_every_measurement [of ?rs ?st 10]
  have e: "data_spo2 (data ?st) = []" "data_diastolic_bp (data ?st) = []"
    "data_timestamp (data ?st) = []" "clock_reads ?st = 0" "clock ?st = (\<lambda>n. int n)"
    by (simp_all add: init_monitor_def empty_data_def)
  have m: "map spo2 ?rs = [95, 88, 96, 97, 89, 95, 94, 87, 96, 95, 97]"
    "map diastolic_bp ?rs = [80, 80, 80, 80, 80, 80, 80, 80, 80, 80, 80]"
    by (simp_all add: reading_with_spo2_def)
  from t have a: "data_spo2 (data (simulate_measurements ?rs ?st)) =
      [95, 88, 96, 97, 89, 95, 94, 87, 96, 95, 97]"
    unfolding e m by simp
  from t have c: "data_diastolic_bp (data (simulate_measurements ?rs ?st)) =
      [80, 80, 80, 80, 80, 80, 80, 80, 80, 80, 80]"
    unfolding e m by simp
  from t have "data_timestamp (data (simulate_measurements ?rs ?st)) =
      data_timestamp (data ?st) @ map (clock ?st) [clock_reads ?st..<clock_reads ?st + length ?rs]"
    by blast
  then have d: "data_timestamp (data (simulate_measurements ?rs ?st)) =
      [0, 1, 2, 3, 4, 5, 6, 7, 8, 9, 10]"
    unfolding e by (simp add: upt_rec)
  from t h have "py_slice_from (- int 10) (data_spo2 (data (simulate_measurements ?rs ?st))) =
      drop (length (data_spo2 (data ?st)) + length ?rs - 10) (data_spo2 (data ?st) @ map spo2 ?rs)"
    by blast
  then have b: "py_slice_from (- int 10) (data_spo2 (data (simulate_measurements ?rs ?st))) =
      [88, 96, 97, 89, 95, 94, 87, 96, 95, 97]"
    unfolding e m by simp
  from h a b c d show ?thesis unfolding history_def by blast
qed

text \<open>
  The claim C4 fails on the code: with the default configuration (window size 10) the
  history after 11 measurements holds 11 samples, the oldest still first.
\<close>

theorem history_exceeds_window_size:
  "window_size (prediction_settings (config (history default_config (\<lambda>n. Delivered)
      [95, 88, 96, 97, 89, 95, 94, 87, 96, 95, 97]))) = 10 \<and>
   length (data_spo2 (data (history default_config (\<lambda>n. Delivered)
      [95, 88, 96, 97, 89, 95, 94, 87, 96, 95, 97]))) = 11 \<and>
   \<not> int (length (data_spo2 (data (history default_config (\<lambda>n. Delivered)
      [95, 88, 96, 97, 89, 95, 94, 87, 96, 95, 97]))))
     \<le> window_size (prediction_settings (config (history default_config (\<lambda>n. Delivered)
      [95, 88, 96, 97, 89, 95, 94, 87, 96, 95, 97]))) \<and>
   hd (data_spo2 (data (history default_config (\<lambda>n. Delivered)
      [95, 88, 96, 97, 89, 95, 94, 87, 96, 95, 97]))) = 95"
  by (simp add: history_spo2 history_cfg default_config_def)

text \<open>
  C8, as the code has it. \<^verbatim>\<open>simulate_measurement\<close> compares no timestamps: for
  every monitor and reading, whatever the timestamps already in the history are, the
  measurement it builds carries the values of the reading and the clock value just
  read, and that measurement becomes the new last entry of each of the eight channels
  and of the measurements table; the entries before it stay as they were, in the same
  order, and the symptom channel is untouched. A timestamp earlier than the previous
  one is therefore stored like any other: no error for it exists and nothing is sorted.
\<close>

theorem measurement_appended_without_order_check:
  "fst (simulate_measurement r st) =
     \<lparr>spo2 = spo2 r, heart_rate = heart_rate r, respiratory_rate = respiratory_rate r,
      temperature = temperature r, systolic_bp = systolic_bp r, diastolic_bp = diastolic_bp r,
      activity_level = activity_level r, time = clock st (clock_reads st)\<rparr> \<and>
   data_timestamp (data (snd (simulate_measurement r st))) =
     data_timestamp (data st) @ [clock st (clock_reads st)] \<and>
   data_spo2 (data (snd (simulate_measurement r st))) = data_spo2 (data st) @ [spo2 r] \<and>
   data_heart_rate (data (snd (simulate_measurement r st))) =
     data_heart_rate (data st) @ [heart_rate r] \<and>
   data_respiratory_rate (data (snd (simulate_measurement r st))) =
     data_respiratory_rate (data st) @ [respiratory_rate r] \<and>
   data_temperature (data (snd (simulate_measurement r st))) =
     data_temperature (data st) @ [temperature r] \<and>
   data_systolic_bp (data (snd (simulate_measurement r st))) =
     data_systolic_bp (data st) @ [systolic_bp r] \<and>
   data_diastolic_bp (data (snd (simulate_measurement r st))) =
     data_diastolic_bp (data st) @ [diastolic_bp r] \<and>
   data_activity_level (data (snd (simulate_measurement r st))) =
     data_activity_level (data st) @ [activity_level r] \<and>
   data_symptoms (data (snd (simulate_measurement r st))) = data_symptoms (data st) \<and>
   db_measurements (snd (simulate_measurement r st)) =
     db_measurements st @ [fst (simulate_measurement r st)]"
  by (simp add: simulate_measurement_def datetime_now_def save_measurement_def Let_def)

theorem measurement_appended_without_order_check_witness:
  "data_timestamp (data (snd (simulate_measurement (reading_with_spo2 96)
      (snd (simulate_measurement (reading_with_spo2 95)
         (init_monitor default_config (\<lambda>n. 10 - int n) (\<lambda>n. Delivered))))))) = [10, 9] \<and>
   data_spo2 (data (snd (simulate_measurement (reading_with_spo2 96)
      (snd (simulate_measurement (reading_with_spo2 95)
         (init_monitor default_config (\<lambda>n. 10 - int n) (\<lambda>n. Delivered))))))) = [95, 96] \<and>
   data_temperature (data (snd (simulate_measurement (reading_with_spo2 96)
      (snd (simulate_measurement (reading_with_spo2 95)
         (init_monitor default_config (\<lambda>n. 10 - int n) (\<lambda>n. Delivered))))))) = [37, 37] \<and>
   data_activity_level (data (snd (simulate_measurement (reading_with_spo2 96)
      (snd (simulate_measurement (reading_with_spo2 95)
         (init_monitor default_config (\<lambda>n. 10 - int n) (\<lambda>n. Delivered))))))) = [Repos, Repos]"
  using measurement_appended_without_order_check
    [of "reading_with_spo2 96" "snd (simulate_measurement (reading_with_spo2 95)
         (init_monitor default_config (\<lambda>n. 10 - int n) (\<lambda>n. Delivered)))"]
    measurement_appended_without_order_check
    [of "reading_with_spo2 95" "init_monitor default_config (\<lambda>n. 10 - int n) (\<lambda>n. Delivered)"]
  by (simp add: simulate_measurement_clock init_monitor_def empty_data_def reading_with_spo2_def)

text \<open>
  The claim C8 fails on the code: when the clock goes back between two measurements,
  both are accepted and the timestamps of the history are out of order.
\<close>

theorem timestamp_regression_accepted:
  "data_timestamp (data (simulate_measurements [reading_with_spo2 95, reading_with_spo2 96]
      (init_monitor default_config (\<lambda>n. 10 - int n) (\<lambda>n. Delivered)))) = [10, 9] \<and>
   \<not> sorted (data_timestamp (data (simulate_measurements [reading_with_spo2 95, reading_with_spo2 96]
      (init_monitor default_config (\<lambda>n. 10 - int n) (\<lambda>n. Delivered)))))"
  by (simp add: simulate_measurements_timestamps init_monitor_def empty_data_def
      upt_rec del: simulate_measurements.simps)

section \<open>Findings and alerts\<close>

lemma check_exacerbation_fires_iff:
  "fst (check_exacerbation e st) \<longleftrightarrow>
     data_spo2 (data st) \<noteq> [] \<and>
     lower (symptom e) \<in> {''essoufflement'', ''toux'', ''fatigue''} \<and>
     7 \<le> severity e \<and> last (data_spo2 (data st)) < 92"
  by (simp add: check_exacerbation_def Let_def)

lemma check_exacerbation_fired:
  "fst (check_exacerbation e st) \<Longrightarrow>
     snd (check_exacerbation e st) = send_alert ''exacerbation'' Signes_d_exacerbation_possible st"
  by (auto simp: check_exacerbation_def Let_def split: if_splits)

lemma check_exacerbation_not_fired:
  "\<not> fst (check_exacerbation e st) \<Longrightarrow> snd (check_exacerbation e st) = st"
  by (auto simp: check_exacerbation_def Let_def split: if_splits)

lemma lower_Toux: "lower ''Toux'' = ''toux''"
  by (simp add: lower_def lower_char_def)

lemma check_measurement_alerts_new:
  "map (\<lambda>a. (alert_type a, alert_message a, alert_severity a))
     (drop (length (alerts st)) (alerts (check_measurement_alerts m st))) =
     (if of_int (spo2 m) < spo2_low (alert_thresholds (config st))
      then [(''spo2_low'', SpO2_basse (spo2 m), ''medium'')] else []) @
     (if of_int (heart_rate m) > heart_rate_high (alert_thresholds (config st))
      then [(''heart_rate_high'', Tachycardie (heart_rate m), ''medium'')] else []) @
     (if of_int (respiratory_rate m) > respiratory_rate_high (alert_thresholds (config st))
      then [(''respiratory_rate_high'', Tachypnee (respiratory_rate m), ''medium'')] else []) @
     (if temperature m > temperature_high (alert_thresholds (config st))
      then [(''temperature_high'', Fievre (temperature m), ''medium'')] else [])"
  unfolding check_measurement_alerts_def Let_def
  by (simp add: send_alert_alerts send_alert_config)

lemma check_measurement_alerts_appends:
  "alerts (check_measurement_alerts m st) =
     alerts st @ drop (length (alerts st)) (alerts (check_measurement_alerts m st))"
  "db_alerts (check_measurement_alerts m st) =
     db_alerts st @ drop (length (alerts st)) (alerts (check_measurement_alerts m st))"
proof -
  show "alerts (check_measurement_alerts m st) =
     alerts st @ drop (length (alerts st)) (alerts (check_measurement_alerts m st))"
    using check_measurement_alerts_prefix(1) [of st m]
      append_take_drop_id [of "length (alerts st)" "alerts (check_measurement_alerts m st)"]
    by simp
  have "db_alerts (check_measurement_alerts m st) =
     db_alerts st @ drop (length (db_alerts st)) (db_alerts (check_measurement_alerts m st))"
    using check_measurement_alerts_prefix(2) [of st m]
      append_take_drop_id [of "length (db_alerts st)" "db_alerts (check_measurement_alerts m st)"]
    by simp
  then show "db_alerts (check_measurement_alerts m st) =
     db_alerts st @ drop (length (alerts st)) (alerts (check_measurement_alerts m st))"
    by (simp only: check_measurement_alerts_db)
qed

text \<open>
  C5, as the code has it. The threshold evaluation appends, after the alerts that were
  there, one alert for each rule that matches and none for a rule that does not, in
  the order spo2, heart rate, respiratory rate, temperature: the alert of a matching
  rule has the type of the rule, the message with the measured value and severity
  \<open>medium\<close>, and the same alerts are appended to the database and to the in-memory
  list. An exacerbation that fires becomes exactly one alert of type \<open>exacerbation\<close>
  and severity \<open>high\<close> in both; one that does not fire changes nothing.
  \<^verbatim>\<open>send_alert\<close> appends to both exactly one alert, of severity \<open>high\<close> for the type
  \<open>exacerbation\<close> and \<open>medium\<close> for every other type. The forecast and the anomaly
  detection return their finding and leave the monitor, its alerts included, as it was.
\<close>

theorem findings_become_classified_alerts:
  "alerts (check_measurement_alerts m st) =
     alerts st @ drop (length (alerts st)) (alerts (check_measurement_alerts m st)) \<and>
   db_alerts (check_measurement_alerts m st) =
     db_alerts st @ drop (length (alerts st)) (alerts (check_measurement_alerts m st)) \<and>
   map (\<lambda>a. (alert_type a, alert_message a, alert_severity a))
     (drop (length (alerts st)) (alerts (check_measurement_alerts m st))) =
     (if of_int (spo2 m) < spo2_low (alert_thresholds (config st))
      then [(''spo2_low'', SpO2_basse (spo2 m), ''medium'')] else []) @
     (if of_int (heart_rate m) > heart_rate_high (alert_thresholds (config st))
      then [(''heart_rate_high'', Tachycardie (heart_rate m), ''medium'')] else []) @
     (if of_int (respiratory_rate m) > respiratory_rate_high (alert_thresholds (config st))
      then [(''respiratory_rate_high'', Tachypnee (respiratory_rate m), ''medium'')] else []) @
     (if temperature m > temperature_high (alert_thresholds (config st))
      then [(''temperature_high'', Fievre (temperature m), ''medium'')] else []) \<and>
   (fst (check_exacerbation e st) \<longrightarrow>
      alerts (snd (check_exacerbation e st)) =
        alerts st @ [\<lparr>alert_timestamp = clock st (clock_reads st), alert_type = ''exacerbation'',
                      alert_message = Signes_d_exacerbation_possible, alert_severity = ''high''\<rparr>] \<and>
      db_alerts (snd (check_exacerbation e st)) =
        db_alerts st @ [\<lparr>alert_timestamp = clock st (clock_reads st), alert_type = ''exacerbation'',
                         alert_message = Signes_d_exacerbation_possible, alert_severity = ''high''\<rparr>]) \<and>
   (\<not> fst (check_exacerbation e st) \<longrightarrow> snd (check_exacerbation e st) = st) \<and>
   alerts (send_alert ty msg st) =
     alerts st @ [\<lparr>alert_timestamp = clock st (clock_reads st), alert_type = ty,
                   alert_message = msg,
                   alert_severity = (if ty = ''exacerbation'' then ''high'' else ''medium'')\<rparr>] \<and>
   db_alerts (send_alert ty msg st) =
     db_alerts st @ [\<lparr>alert_timestamp = clock st (clock_reads st), alert_type = ty,
                      alert_message = msg,
                      alert_severity = (if ty = ''exacerbation'' then ''high'' else ''medium'')\<rparr>] \<and>
   snd (predict_deterioration hours st) = st \<and>
   snd (detect_anomalies forest st) = st"
proof -
  have ex: "fst (check_exacerbation e st) \<longrightarrow>
      alerts (snd (check_exacerbation e st)) =
        alerts st @ [\<lparr>alert_timestamp = clock st (clock_reads st), alert_type = ''exacerbation'',
                      alert_message = Signes_d_exacerbation_possible, alert_severity = ''high''\<rparr>] \<and>
      db_alerts (snd (check_exacerbation e st)) =
        db_alerts st @ [\<lparr>alert_timestamp = clock st (clock_reads st), alert_type = ''exacerbation'',
                         alert_message = Signes_d_exacerbation_possible, alert_severity = ''high''\<rparr>]"
    by (simp add: check_exacerbation_fired send_alert_alerts send_alert_db_alerts)
  have nex: "\<not> fst (check_exacerbation e st) \<longrightarrow> snd (check_exacerbation e st) = st"
    by (simp add: check_exacerbation_not_fired)
  from ex nex check_measurement_alerts_appends [of m st] check_measurement_alerts_new [of st m]
    send_alert_alerts [of ty msg st] send_alert_db_alerts [of ty msg st]
    predict_deterioration_state [of hours st] detect_anomalies_state [of forest st]
  show ?thesis by (intro conjI) assumption+
qed

theorem findings_become_classified_alerts_witness:
  "alerts (check_measurement_alerts example_measurement
      (init_monitor default_config (\<lambda>n. int n) (\<lambda>n. Delivered))) =
     [\<lparr>alert_timestamp = 0, alert_type = ''spo2_low'', alert_message = SpO2_basse 90,
       alert_severity = ''medium''\<rparr>,
      \<lparr>alert_timestamp = 2, alert_type = ''heart_rate_high'', alert_message = Tachycardie 120,
       alert_severity = ''medium''\<rparr>] \<and>
   db_alerts (check_measurement_alerts example_measurement
      (init_monitor default_config (\<lambda>n. int n) (\<lambda>n. Delivered))) =
     alerts (check_measurement_alerts example_measurement
      (init_monitor default_config (\<lambda>n. int n) (\<lambda>n. Delivered))) \<and>
   map (\<lambda>a. (alert_type a, alert_message a, alert_severity a))
     (alerts (check_measurement_alerts example_measurement
        (init_monitor default_config (\<lambda>n. int n) (\<lambda>n. Delivered)))) =
     [(''spo2_low'', SpO2_basse 90, ''medium''), (''heart_rate_high'', Tachycardie 120, ''medium'')] \<and>
   fst (check_exacerbation toux8 (history default_config (\<lambda>n. Delivered) [95, 89])) \<and>
   alerts (snd (check_exacerbation toux8 (history default_config (\<lambda>n. Delivered) [95, 89]))) =
     [\<lparr>alert_timestamp = 2, alert_type = ''exacerbation'',
       alert_message = Signes_d_exacerbation_possible, alert_severity = ''high''\<rparr>] \<and>
   db_alerts (snd (check_exacerbation toux8 (history default_config (\<lambda>n. Delivered) [95, 89]))) =
     [\<lparr>alert_timestamp = 2, alert_type = ''exacerbation'',
       alert_message = Signes_d_exacerbation_possible, alert_severity = ''high''\<rparr>] \<and>
   \<not> fst (check_exacerbation (toux8\<lparr>severity := 5\<rparr>) (history default_config (\<lambda>n. Delivered) [95, 89])) \<and>
   snd (check_exacerbation (toux8\<lparr>severity := 5\<rparr>) (history default_config (\<lambda>n. Delivered) [95, 89])) =
     history default_config (\<lambda>n. Delivered) [95, 89]"
proof -
  let ?st = "history default_config (\<lambda>n. Delivered) [95, 89]"
  let ?s0 = "init_monitor default_config (\<lambda>n. int n) (\<lambda>n. Delivered)"
  note t0 = findings_become_classified_alerts [where st = ?s0 and m = example_measurement]
  have s0: "alerts ?s0 = []" "db_alerts ?s0 = []"
    by (simp_all add: init_monitor_def)
  from t0 have p: "map (\<lambda>a. (alert_type a, alert_message a, alert_severity a))
     (alerts (check_measurement_alerts example_measurement ?s0)) =
     [(''spo2_low'', SpO2_basse 90, ''medium''), (''heart_rate_high'', Tachycardie 120, ''medium'')]"
    unfolding s0 by (simp add: example_measurement_def init_monitor_def default_config_def)
  from t0 have q: "db_alerts (check_measurement_alerts example_measurement ?s0) =
     alerts (check_measurement_alerts example_measurement ?s0)"
    unfolding s0 by simp
  have r: "alerts (check_measurement_alerts example_measurement ?s0) =
     [\<lparr>alert_timestamp = 0, alert_type = ''spo2_low'', alert_message = SpO2_basse 90,
       alert_severity = ''medium''\<rparr>,
      \<lparr>alert_timestamp = 2, alert_type = ''heart_rate_high'', alert_message = Tachycardie 120,
       alert_severity = ''medium''\<rparr>]"
    by (simp add: check_measurement_alerts_def Let_def send_alert_def save_alert_def
        datetime_now_def console_print_def example_measurement_def init_monitor_def
        default_config_def)
  have f: "fst (check_exacerbation toux8 ?st)"
    by (simp add: check_exacerbation_fires_iff history_spo2 toux8_def lower_Toux)
  have n: "\<not> fst (check_exacerbation (toux8\<lparr>severity := 5\<rparr>) ?st)"
    by (simp add: check_exacerbation_fires_iff history_spo2 toux8_def lower_Toux)
  have v: "alerts ?st = []" "db_alerts ?st = []" "clock ?st (clock_reads ?st) = 2"
    by (simp_all add: history_no_alerts)
       (simp add: history_def init_monitor_def simulate_measurement_clock)
  from findings_become_classified_alerts [where st = ?st and e = toux8] f
  have a: "alerts (snd (check_exacerbation toux8 ?st)) =
      alerts ?st @ [\<lparr>alert_timestamp = clock ?st (clock_reads ?st), alert_type = ''exacerbation'',
          alert_message = Signes_d_exacerbation_possible, alert_severity = ''high''\<rparr>]"
    and d: "db_alerts (snd (check_exacerbation toux8 ?st)) =
      db_alerts ?st @ [\<lparr>alert_timestamp = clock ?st (clock_reads ?st), alert_type = ''exacerbation'',
          alert_message = Signes_d_exacerbation_possible, alert_severity = ''high''\<rparr>]"
    by blast+
  from findings_become_classified_alerts [where st = ?st and e = "toux8\<lparr>severity := 5\<rparr>"] n
  have u: "snd (check_exacerbation (toux8\<lparr>severity := 5\<rparr>) ?st) = ?st"
    by blast
  from f n u a d p q r show ?thesis unfolding v by simp
qed

text \<open>
  The claim C5 fails on the code for the forecast and the anomaly detection: both
  report a finding here and no alert exists afterwards, in the list or in the database.
\<close>

theorem forecast_and_anomaly_findings_append_no_alert:
  "fst (predict_deterioration 3 (history config_window5 (\<lambda>n. Delivered) [98, 96, 94, 92, 90])) =
     Inr (Deterioration_prevue 3 92) \<and>
   alerts (snd (predict_deterioration 3
      (history config_window5 (\<lambda>n. Delivered) [98, 96, 94, 92, 90]))) = [] \<and>
   db_alerts (snd (predict_deterioration 3
      (history config_window5 (\<lambda>n. Delivered) [98, 96, 94, 92, 90]))) = [] \<and>
   fst (detect_anomalies forest_below_90 (history default_config (\<lambda>n. Delivered)
      [95, 88, 96, 97, 89, 95, 94, 87, 96, 95, 97])) = Inr (Anomalies_detectees 3) \<and>
   alerts (snd (detect_anomalies forest_below_90 (history default_config (\<lambda>n. Delivered)
      [95, 88, 96, 97, 89, 95, 94, 87, 96, 95, 97]))) = [] \<and>
   db_alerts (snd (detect_anomalies forest_below_90 (history default_config (\<lambda>n. Delivered)
      [95, 88, 96, 97, 89, 95, 94, 87, 96, 95, 97]))) = []"
proof -
  have v: "fst (detect_anomalies forest_below_90 (history default_config (\<lambda>n. Delivered)
      [95, 88, 96, 97, 89, 95, 94, 87, 96, 95, 97])) = Inr (Anomalies_detectees 3)"
    by (simp add: detect_anomalies_def Let_def history_spo2 history_heart_rate
        history_respiratory_rate py_slice_from_def vital_matrix_def forest_below_90_def)
  show ?thesis
    by (simp add: forecast_decreasing v predict_deterioration_state detect_anomalies_state
        history_no_alerts)
qed

section \<open>The exacerbation rule and the configured threshold\<close>

lemma log_symptom_alerts:
  "alerts (snd (log_symptom sy sev nt st)) =
     (if data_spo2 (data st) \<noteq> [] \<and>
         lower sy \<in> {''essoufflement'', ''toux'', ''fatigue''} \<and>
         7 \<le> sev \<and> last (data_spo2 (data st)) < 92
      then alerts st @ [\<lparr>alert_timestamp = clock st (Suc (clock_reads st)),
                          alert_type = ''exacerbation'',
                          alert_message = Signes_d_exacerbation_possible,
                          alert_severity = ''high''\<rparr>]
      else alerts st)"
  by (simp add: log_symptom_def datetime_now_def save_symptom_def check_exacerbation_def
      Let_def send_alert_alerts)

text \<open>
  C2 on the code. The rule compares the latest spo2 with the literal 92, not with the
  configured \<open>spo2_low\<close>. With \<open>spo2_low\<close> set to 95 and a latest spo2 of 93, the
  entry "Toux" of severity 8 is below the configured threshold and nothing fires,
  called directly or through \<^verbatim>\<open>log_symptom\<close>;
  with \<open>spo2_low\<close> set to 90 and a latest spo2 of 91, which is not below the
  configured threshold, the same entry fires.
\<close>

theorem exacerbation_compares_with_92_not_configured_threshold:
  "real_of_int (last (data_spo2 (data (history (config_spo2_low 95) (\<lambda>n. Delivered) [93]))))
     < spo2_low (alert_thresholds (config (history (config_spo2_low 95) (\<lambda>n. Delivered) [93]))) \<and>
   fst (check_exacerbation toux8 (history (config_spo2_low 95) (\<lambda>n. Delivered) [93])) = False \<and>
   alerts (snd (check_exacerbation toux8 (history (config_spo2_low 95) (\<lambda>n. Delivered) [93]))) = [] \<and>
   alerts (snd (log_symptom ''Toux'' 8 [] (history (config_spo2_low 95) (\<lambda>n. Delivered) [93]))) = [] \<and>
   \<not> real_of_int (last (data_spo2 (data (history (config_spo2_low 90) (\<lambda>n. Delivered) [91]))))
     < spo2_low (alert_thresholds (config (history (config_spo2_low 90) (\<lambda>n. Delivered) [91]))) \<and>
   fst (check_exacerbation toux8 (history (config_spo2_low 90) (\<lambda>n. Delivered) [91])) = True"
proof -
  have a: "fst (check_exacerbation toux8 (history (config_spo2_low 95) (\<lambda>n. Delivered) [93])) = False"
    by (simp add: check_exacerbation_fires_iff history_spo2)
  then have b: "alerts (snd (check_exacerbation toux8
      (history (config_spo2_low 95) (\<lambda>n. Delivered) [93]))) = []"
    by (simp add: check_exacerbation_not_fired history_no_alerts)
  have c: "fst (check_exacerbation toux8 (history (config_spo2_low 90) (\<lambda>n. Delivered) [91])) = True"
    by (simp add: check_exacerbation_fires_iff history_spo2 toux8_def lower_Toux)
  have d: "alerts (snd (log_symptom ''Toux'' 8 []
      (history (config_spo2_low 95) (\<lambda>n. Delivered) [93]))) = []"
    by (simp add: log_symptom_alerts history_spo2 history_no_alerts)
  show ?thesis
    using a b c d by (simp add: history_spo2 history_cfg config_spo2_low_def default_config_def)
qed

end
